theory Spec2Isabelle
  imports Complex_Main "HOL-Library.AList"
begin

section \<open>Malaysian income tax calculator: the calculation engine\<close>

text \<open>
  The repository holds a React component in several revisions. The sources modelled here are
  \<^item> the fixed-amount revision (state with EPF and SOCSO amounts, \<open>taxRanges\<close>,
    \<open>calculateTax\<close> by range lookup, rebates), and
  \<^item> the bracket-walk revision (\<open>src/src/App.tsx\<close>: \<open>calculateTax\<close> by a loop over
    \<open>taxBrackets\<close>, with an older rate schedule).

  JavaScript numbers are modelled as reals: rounding and overflow of IEEE doubles are
  outside the model. \<open>NaN\<close>, which only \<open>parseFloat\<close> produces here and which every call
  site replaces at once by \<open>0\<close>, is the value \<open>None\<close> of a \<open>real option\<close>.
\<close>

subsection \<open>Data model\<close>

record TaxBracket =
  bracket_min :: real
  bracket_max :: "real option"
  rate :: real

record Deduction =
  deduction_id :: string
  label :: string
  maxAmount :: real
  defaultAmount :: "real option"

record TaxRange =
  range_start :: real
  range_next :: "real option"
  fixedAmount :: real

definition mkBracket :: "real \<Rightarrow> real option \<Rightarrow> real \<Rightarrow> TaxBracket" where
  "mkBracket lo hi r = \<lparr>bracket_min = lo, bracket_max = hi, rate = r\<rparr>"

definition mkRange :: "real \<Rightarrow> real option \<Rightarrow> real \<Rightarrow> TaxRange" where
  "mkRange s n f = \<lparr>range_start = s, range_next = n, fixedAmount = f\<rparr>"

definition mkDeduction :: "string \<Rightarrow> string \<Rightarrow> real \<Rightarrow> real option \<Rightarrow> Deduction" where
  "mkDeduction i l m d = \<lparr>deduction_id = i, label = l, maxAmount = m, defaultAmount = d\<rparr>"

subsection \<open>Static tables of the fixed-amount revision\<close>

definition taxBrackets :: "TaxBracket list" where
  "taxBrackets =
    [mkBracket 0 (Some 5000) 0,
     mkBracket 5001 (Some 20000) 1,
     mkBracket 20001 (Some 35000) 3,
     mkBracket 35001 (Some 50000) 6,
     mkBracket 50001 (Some 70000) 11,
     mkBracket 70001 (Some 100000) 19,
     mkBracket 100001 (Some 400000) 25,
     mkBracket 400001 (Some 600000) 26,
     mkBracket 600001 (Some 2000000) 28,
     mkBracket 2000001 None 30]"

definition taxRanges :: "TaxRange list" where
  "taxRanges =
    [mkRange 0 (Some 5000) 0,
     mkRange 5001 (Some 20000) 0,
     mkRange 20001 (Some 35000) 150,
     mkRange 35001 (Some 50000) 600,
     mkRange 50001 (Some 70000) 1500,
     mkRange 70001 (Some 100000) 3700,
     mkRange 100001 (Some 400000) 9400,
     mkRange 400001 (Some 600000) 84400,
     mkRange 600001 (Some 2000000) 136400,
     mkRange 2000001 None 528400]"

subsection \<open>Static table of the bracket-walk revision\<close>

definition taxBrackets_loop :: "TaxBracket list" where
  "taxBrackets_loop =
    [mkBracket 0 (Some 5000) 0,
     mkBracket 5001 (Some 20000) 1,
     mkBracket 20001 (Some 35000) 3,
     mkBracket 35001 (Some 50000) 8,
     mkBracket 50001 (Some 70000) 13,
     mkBracket 70001 (Some 100000) 21,
     mkBracket 100001 (Some 250000) 24,
     mkBracket 250001 (Some 400000) 24.5,
     mkBracket 400001 (Some 600000) 25,
     mkBracket 600001 (Some 1000000) 26,
     mkBracket 1000001 None 28]"

subsection \<open>Tax by range lookup (fixed-amount revision)\<close>

definition inRange :: "real \<Rightarrow> TaxRange \<Rightarrow> bool" where
  "inRange income r \<longleftrightarrow>
     income \<ge> range_start r \<and> (case range_next r of None \<Rightarrow> True | Some n \<Rightarrow> income \<le> n)"

definition inBracket :: "real \<Rightarrow> TaxBracket \<Rightarrow> bool" where
  "inBracket income b \<longleftrightarrow>
     income \<ge> bracket_min b \<and> (case bracket_max b of None \<Rightarrow> True | Some m \<Rightarrow> income \<le> m)"

definition calculateTax :: "real \<Rightarrow> real" where
  "calculateTax income =
    (if income \<le> 0 then 0
     else case find (inRange income) taxRanges of
       None \<Rightarrow> 0
     | Some range' \<Rightarrow>
        (case find (inBracket income) taxBrackets of
           None \<Rightarrow> 0
         | Some bracket \<Rightarrow>
            if income \<le> 5000 then 0
            else let excessAmount = income - range_start range';
                     taxOnExcess = (excessAmount * rate bracket) / 100
                 in fixedAmount range' + taxOnExcess))"

subsection \<open>Tax by bracket walk (\<open>App.tsx\<close>)\<close>

text \<open>
  The loop carries \<open>totalTax\<close> and \<open>remainingIncome\<close>; \<open>break\<close> returns the accumulated
  tax. \<open>bracket.max ? a : b\<close> tests truthiness: \<open>null\<close> and \<open>0\<close> both select \<open>b\<close>.
\<close>

fun taxLoop :: "TaxBracket list \<Rightarrow> real \<Rightarrow> real \<Rightarrow> real" where
  "taxLoop [] totalTax remainingIncome = totalTax"
| "taxLoop (bracket # rest) totalTax remainingIncome =
    (if remainingIncome \<le> 0 then totalTax
     else let taxableAmount =
                (case bracket_max bracket of
                   None \<Rightarrow> remainingIncome
                 | Some m \<Rightarrow>
                     if m \<noteq> 0 then min remainingIncome (m - bracket_min bracket + 1)
                     else remainingIncome)
          in taxLoop rest (totalTax + (taxableAmount * rate bracket) / 100)
                          (remainingIncome - taxableAmount))"

definition calculateTax_loop :: "real \<Rightarrow> real" where
  "calculateTax_loop income = taxLoop taxBrackets_loop 0 income"

text \<open>
  What the walk needs of a table to be monotone: no negative rate, and no bracket whose
  width \<open>max - min + 1\<close> is negative. Both tables of the sources satisfy it.
\<close>

definition wellFormed :: "TaxBracket list \<Rightarrow> bool" where
  "wellFormed bs \<longleftrightarrow>
     list_all (\<lambda>b. 0 \<le> rate b \<and>
                    (case bracket_max b of None \<Rightarrow> True | Some m \<Rightarrow> bracket_min b \<le> m + 1)) bs"

subsection \<open>Parsing of text fields\<close>

text \<open>
  \<open>parseFloat\<close> is the JavaScript built-in: it skips leading white space, reads the longest
  prefix that is a signed decimal literal (digits, an optional fraction, an optional
  exponent) and ignores what follows; with no such prefix the result is \<open>NaN\<close>, here
  \<open>None\<close>. The literal \<open>Infinity\<close> has no counterpart among the reals and is not read.
\<close>

definition isDigit :: "char \<Rightarrow> bool" where
  "isDigit c \<longleftrightarrow> c \<in> set ''0123456789''"

definition isWhiteSpace :: "char \<Rightarrow> bool" where
  "isWhiteSpace c \<longleftrightarrow> c \<in> set [CHR '' '', CHR 0x09, CHR 0x0A, CHR 0x0B, CHR 0x0C, CHR 0x0D]"

definition digitValue :: "char \<Rightarrow> nat" where
  "digitValue c = of_char c - 48"

definition digitsValue :: "string \<Rightarrow> nat" where
  "digitsValue ds = foldl (\<lambda>acc c. 10 * acc + digitValue c) 0 ds"

definition stripSign :: "string \<Rightarrow> bool \<times> string" where
  "stripSign t =
    (case t of
       [] \<Rightarrow> (False, t)
     | c # r \<Rightarrow> if c = CHR ''-'' then (True, r) else if c = CHR ''+'' then (False, r) else (False, t))"

definition applyExponent :: "real \<Rightarrow> string \<Rightarrow> real" where
  "applyExponent m w =
    (case w of
       [] \<Rightarrow> m
     | c # r \<Rightarrow>
         if c = CHR ''e'' \<or> c = CHR ''E'' then
           (let (eneg, x) = stripSign r; ed = takeWhile isDigit x
            in if ed = [] then m
               else if eneg then m / 10 ^ digitsValue ed else m * 10 ^ digitsValue ed)
         else m)"

definition parseFloat :: "string \<Rightarrow> real option" where
  "parseFloat s =
    (let (negative, u) = stripSign (dropWhile isWhiteSpace s);
         intDigits = takeWhile isDigit u;
         v = dropWhile isDigit u;
         (fracDigits, w) =
           (case v of
              [] \<Rightarrow> ([], v)
            | c # r \<Rightarrow> if c = CHR ''.'' then (takeWhile isDigit r, dropWhile isDigit r) else ([], v))
     in if intDigits = [] \<and> fracDigits = [] then None
        else let mantissa = real (digitsValue intDigits)
                            + real (digitsValue fracDigits) / 10 ^ length fracDigits;
                 magnitude = applyExponent mantissa w
             in Some (if negative then - magnitude else magnitude))"

text \<open>\<open>parseFloat(value.replace(/,/g, '')) || 0\<close>: commas removed, \<open>NaN\<close> and \<open>0\<close> become \<open>0\<close>.\<close>

definition parseAmount :: "string \<Rightarrow> real" where
  "parseAmount value =
    (case parseFloat (filter (\<lambda>c. c \<noteq> CHR '','') value) of None \<Rightarrow> 0 | Some n \<Rightarrow> n)"

subsection \<open>Deduction catalogue and component state\<close>

definition availableDeductions :: "Deduction list" where
  "availableDeductions =
    [mkDeduction ''personal'' ''Individual and Dependent Relatives'' 9000 (Some 9000),
     mkDeduction ''medical'' ''Special Medical Treatment for Self/Spouse/Child'' 8000 None,
     mkDeduction ''disabled_support'' ''Basic Supporting Equipment'' 6000 None,
     mkDeduction ''disabled_individual'' ''Disabled Individual'' 6000 None,
     mkDeduction ''education'' ''Education Fees (Self)'' 7000 None,
     mkDeduction ''medical_serious'' ''Medical Treatment for Serious Diseases'' 10000 None,
     mkDeduction ''lifestyle''
       ''Lifestyle - Purchase of Books/Computers/Sports Equipment/Internet'' 2500 None,
     mkDeduction ''lifestyle_additional'' ''Lifestyle - Additional Relief for Sports/Travel'' 500 None,
     mkDeduction ''breastfeeding'' ''Breastfeeding Equipment'' 1000 None,
     mkDeduction ''childcare'' ''Child Care Centre and Kindergarten Fees'' 3000 None,
     mkDeduction ''sspn'' ''Net Savings in SSPN'' 8000 None,
     mkDeduction ''alimony'' ''Alimony Payment to Former Wife'' 4000 None,
     mkDeduction ''spouse'' ''Spouse/Former Wife'' 5000 None,
     mkDeduction ''child'' ''Child'' 2000 None,
     mkDeduction ''life_insurance'' ''Life Insurance and KWSP'' 7000 None,
     mkDeduction ''deferred_annuity'' ''Private Retirement Scheme and Deferred Annuity'' 3000 None,
     mkDeduction ''education_insurance'' ''Education and Medical Insurance'' 3000 None,
     mkDeduction ''socso'' ''Social Security Protection (PERKESO)'' 350 None,
     mkDeduction ''accommodation'' ''Accommodation Benefit'' 1000 None,
     mkDeduction ''ev'' ''Electric Vehicle Charging Equipment'' 2500 None]"

text \<open>
  The inputs of the component. \<open>deductions\<close> and \<open>rebates\<close> are JavaScript objects with
  string keys: association lists in insertion order, where writing an existing key keeps
  its place (\<open>AList.update\<close>).
\<close>

record AppState =
  annualIncome :: string
  epfAmount :: string
  socsoAmount :: string
  deductions :: "(string \<times> real) list"
  rebates :: "(string \<times> real) list"

record CalculationResult =
  totalDeductions :: real
  taxableIncome :: real
  taxAmount :: real
  effectiveRate :: real

text \<open>The mount effect: every catalogue entry with a truthy \<open>defaultAmount\<close> is preset.\<close>

definition defaultDeductions :: "(string \<times> real) list" where
  "defaultDeductions =
    foldl (\<lambda>acc deduction.
             case defaultAmount deduction of
               None \<Rightarrow> acc
             | Some a \<Rightarrow> if a \<noteq> 0 then AList.update (deduction_id deduction) a acc else acc)
          [] availableDeductions"

definition initialState :: AppState where
  "initialState =
    \<lparr>annualIncome = [], epfAmount = [], socsoAmount = [],
     deductions = defaultDeductions,
     rebates = [(''individual'', 0), (''spouse'', 0), (''zakat'', 0)]\<rparr>"

subsection \<open>Formatting of the income field\<close>

text \<open>
  \<open>formatNumber\<close> keeps digits and points, splits at the points (only the first two pieces
  are used), groups the integer part in threes from the right, and appends the second
  piece when it is not empty. The grouping expression only sees digits here, so it puts a
  comma before each group of three that is not at the start.
\<close>

fun addCommas :: "string \<Rightarrow> string" where
  "addCommas [] = []"
| "addCommas (c # r) =
    (if r \<noteq> [] \<and> length r mod 3 = 0 then c # CHR '','' # addCommas r else c # addCommas r)"

definition formatNumber :: "string \<Rightarrow> string" where
  "formatNumber value =
    (let numericValue = filter (\<lambda>c. isDigit c \<or> c = CHR ''.'') value;
         integerPart = takeWhile (\<lambda>c. c \<noteq> CHR ''.'') numericValue;
         decimalPart = takeWhile (\<lambda>c. c \<noteq> CHR ''.'')
                         (drop 1 (dropWhile (\<lambda>c. c \<noteq> CHR ''.'') numericValue));
         formattedInteger = addCommas integerPart
     in if decimalPart \<noteq> [] then formattedInteger @ ''.'' @ decimalPart else formattedInteger)"

subsection \<open>Event handlers\<close>

definition handleIncomeChange :: "string \<Rightarrow> AppState \<Rightarrow> AppState" where
  "handleIncomeChange value s = s\<lparr>annualIncome := formatNumber value\<rparr>"

definition handleDeductionChange :: "string \<Rightarrow> string \<Rightarrow> AppState \<Rightarrow> AppState" where
  "handleDeductionChange i value s =
    (case find (\<lambda>d. deduction_id d = i) availableDeductions of
       None \<Rightarrow> s
     | Some deduction \<Rightarrow>
         let numericValue = parseAmount value;
             cappedValue = min numericValue (maxAmount deduction)
         in s\<lparr>deductions := AList.update i cappedValue (deductions s)\<rparr>)"

definition handleRebateChange :: "string \<Rightarrow> string \<Rightarrow> AppState \<Rightarrow> AppState" where
  "handleRebateChange i value s =
    (let numericValue = parseAmount value
     in s\<lparr>rebates := AList.update i numericValue (rebates s)\<rparr>)"

text \<open>The upper half of the entry invariant: every stored amount is at most its cap.\<close>

definition withinCaps :: "(string \<times> real) list \<Rightarrow> bool" where
  "withinCaps ds \<longleftrightarrow>
     list_all (\<lambda>(i, amount).
                 case find (\<lambda>d. deduction_id d = i) availableDeductions of
                   None \<Rightarrow> False
                 | Some d \<Rightarrow> amount \<le> maxAmount d) ds"

subsection \<open>Summary computation\<close>

text \<open>
  The effect that recomputes the four results from the inputs. \<open>Object.values(o).reduce\<close>
  is a left fold over the values in key order; \<open>value || 0\<close> is \<open>value\<close> on a number.
\<close>

definition calculateSocso :: "AppState \<Rightarrow> real" where
  "calculateSocso s = parseAmount (socsoAmount s)"

definition computeSummary :: "AppState \<Rightarrow> CalculationResult" where
  "computeSummary s =
    (let income = parseAmount (annualIncome s);
         epfDeduction = parseAmount (epfAmount s);
         socsoDeduction = calculateSocso s;
         reliefDeductions = foldl (\<lambda>sum value. sum + value) 0 (map snd (deductions s));
         totalDeductionsAmount = epfDeduction + socsoDeduction + reliefDeductions;
         calculatedTaxableIncome = max 0 (income - totalDeductionsAmount);
         calculatedTax = calculateTax calculatedTaxableIncome;
         totalRebates = foldl (\<lambda>sum value. sum + value) 0 (map snd (rebates s));
         finalTax = max 0 (calculatedTax - totalRebates)
     in \<lparr>totalDeductions = totalDeductionsAmount,
         taxableIncome = calculatedTaxableIncome,
         taxAmount = finalTax,
         effectiveRate = (if income > 0 then (finalTax / income) * 100 else 0)\<rparr>)"

section \<open>Properties\<close>

subsection \<open>Evaluation of the tables and of the parser\<close>

lemmas table_defs =
  taxRanges_def taxBrackets_def mkRange_def mkBracket_def inRange_def inBracket_def

lemmas parse_defs =
  parseAmount_def parseFloat_def stripSign_def applyExponent_def isDigit_def
  isWhiteSpace_def digitsValue_def digitValue_def

lemma taxRanges_rows:
  "taxRanges ! 0 = mkRange 0 (Some 5000) 0"
  "taxRanges ! Suc 0 = mkRange 5001 (Some 20000) 0"
  "taxRanges ! 1 = mkRange 5001 (Some 20000) 0"
  "taxRanges ! 2 = mkRange 20001 (Some 35000) 150"
  "taxRanges ! 3 = mkRange 35001 (Some 50000) 600"
  "taxRanges ! 4 = mkRange 50001 (Some 70000) 1500"
  "taxRanges ! 5 = mkRange 70001 (Some 100000) 3700"
  "taxRanges ! 6 = mkRange 100001 (Some 400000) 9400"
  "taxRanges ! 7 = mkRange 400001 (Some 600000) 84400"
  "taxRanges ! 8 = mkRange 600001 (Some 2000000) 136400"
  "taxRanges ! 9 = mkRange 2000001 None 528400"
  by (simp_all add: taxRanges_def)

lemma taxBrackets_rows:
  "taxBrackets ! 0 = mkBracket 0 (Some 5000) 0"
  "taxBrackets ! Suc 0 = mkBracket 5001 (Some 20000) 1"
  "taxBrackets ! 1 = mkBracket 5001 (Some 20000) 1"
  "taxBrackets ! 2 = mkBracket 20001 (Some 35000) 3"
  "taxBrackets ! 3 = mkBracket 35001 (Some 50000) 6"
  "taxBrackets ! 4 = mkBracket 50001 (Some 70000) 11"
  "taxBrackets ! 5 = mkBracket 70001 (Some 100000) 19"
  "taxBrackets ! 6 = mkBracket 100001 (Some 400000) 25"
  "taxBrackets ! 7 = mkBracket 400001 (Some 600000) 26"
  "taxBrackets ! 8 = mkBracket 600001 (Some 2000000) 28"
  "taxBrackets ! 9 = mkBracket 2000001 None 30"
  by (simp_all add: taxBrackets_def)

lemma taxBrackets_loop_rows:
  "taxBrackets_loop ! 0 = mkBracket 0 (Some 5000) 0"
  "taxBrackets_loop ! Suc 0 = mkBracket 5001 (Some 20000) 1"
  "taxBrackets_loop ! 1 = mkBracket 5001 (Some 20000) 1"
  "taxBrackets_loop ! 2 = mkBracket 20001 (Some 35000) 3"
  "taxBrackets_loop ! 3 = mkBracket 35001 (Some 50000) 8"
  "taxBrackets_loop ! 4 = mkBracket 50001 (Some 70000) 13"
  "taxBrackets_loop ! 5 = mkBracket 70001 (Some 100000) 21"
  "taxBrackets_loop ! 6 = mkBracket 100001 (Some 250000) 24"
  "taxBrackets_loop ! 7 = mkBracket 250001 (Some 400000) 24.5"
  "taxBrackets_loop ! 8 = mkBracket 400001 (Some 600000) 25"
  "taxBrackets_loop ! 9 = mkBracket 600001 (Some 1000000) 26"
  "taxBrackets_loop ! 10 = mkBracket 1000001 None 28"
  by (simp_all add: taxBrackets_loop_def)

lemma nat_less_9: 
  "(k::nat) < 9 \<Longrightarrow> k = 0 \<or> k = 1 \<or> k = 2 \<or> k = 3 \<or> k = 4 \<or> k = 5 \<or> k = 6 \<or> k = 7 \<or> k = 8"
  by arith

subsection \<open>Closed form of the range lookup on each range\<close>

lemma calculateTax_first: "x \<le> 5000 \<Longrightarrow> calculateTax x = 0"
  by (simp add: calculateTax_def split: option.splits)

lemma calculateTax_r2:
  "5001 \<le> x \<Longrightarrow> x \<le> 20000 \<Longrightarrow> calculateTax x = (x - 5001) * 1 / 100"
  by (simp add: calculateTax_def table_defs)

lemma calculateTax_r3:
  "20001 \<le> x \<Longrightarrow> x \<le> 35000 \<Longrightarrow> calculateTax x = 150 + (x - 20001) * 3 / 100"
  by (simp add: calculateTax_def table_defs)

lemma calculateTax_r4:
  "35001 \<le> x \<Longrightarrow> x \<le> 50000 \<Longrightarrow> calculateTax x = 600 + (x - 35001) * 6 / 100"
  by (simp add: calculateTax_def table_defs)

lemma calculateTax_r5:
  "50001 \<le> x \<Longrightarrow> x \<le> 70000 \<Longrightarrow> calculateTax x = 1500 + (x - 50001) * 11 / 100"
  by (simp add: calculateTax_def table_defs)

lemma calculateTax_r6:
  "70001 \<le> x \<Longrightarrow> x \<le> 100000 \<Longrightarrow> calculateTax x = 3700 + (x - 70001) * 19 / 100"
  by (simp add: calculateTax_def table_defs)

lemma calculateTax_r7:
  "100001 \<le> x \<Longrightarrow> x \<le> 400000 \<Longrightarrow> calculateTax x = 9400 + (x - 100001) * 25 / 100"
  by (simp add: calculateTax_def table_defs)

lemma calculateTax_r8:
  "400001 \<le> x \<Longrightarrow> x \<le> 600000 \<Longrightarrow> calculateTax x = 84400 + (x - 400001) * 26 / 100"
  by (simp add: calculateTax_def table_defs)

lemma calculateTax_r9:
  "600001 \<le> x \<Longrightarrow> x \<le> 2000000 \<Longrightarrow> calculateTax x = 136400 + (x - 600001) * 28 / 100"
  by (simp add: calculateTax_def table_defs)

lemma calculateTax_r10:
  "2000001 \<le> x \<Longrightarrow> calculateTax x = 528400 + (x - 2000001) * 30 / 100"
  by (simp add: calculateTax_def table_defs)

lemmas calculateTax_closed =
  calculateTax_r2 calculateTax_r3 calculateTax_r4 calculateTax_r5 calculateTax_r6
  calculateTax_r7 calculateTax_r8 calculateTax_r9 calculateTax_r10

lemma inRange_cases:
  assumes "find (inRange x) taxRanges \<noteq> None"
  shows "(0 \<le> x \<and> x \<le> 5000) \<or> (5001 \<le> x \<and> x \<le> 20000) \<or> (20001 \<le> x \<and> x \<le> 35000)
       \<or> (35001 \<le> x \<and> x \<le> 50000) \<or> (50001 \<le> x \<and> x \<le> 70000)
       \<or> (70001 \<le> x \<and> x \<le> 100000) \<or> (100001 \<le> x \<and> x \<le> 400000)
       \<or> (400001 \<le> x \<and> x \<le> 600000) \<or> (600001 \<le> x \<and> x \<le> 2000000) \<or> 2000001 \<le> x"
  using assms by (simp add: table_defs split: if_splits)

text \<open>Between the upper bound of one range and the start of the next, no range matches.\<close>

lemma no_range_g1: "5000 < x \<Longrightarrow> x < 5001 \<Longrightarrow> find (inRange x) taxRanges = None"
  by (simp add: table_defs)

lemma no_range_g2: "20000 < x \<Longrightarrow> x < 20001 \<Longrightarrow> find (inRange x) taxRanges = None"
  by (simp add: table_defs)

lemma no_range_g3: "35000 < x \<Longrightarrow> x < 35001 \<Longrightarrow> find (inRange x) taxRanges = None"
  by (simp add: table_defs)

lemma no_range_g4: "50000 < x \<Longrightarrow> x < 50001 \<Longrightarrow> find (inRange x) taxRanges = None"
  by (simp add: table_defs)

lemma no_range_g5: "70000 < x \<Longrightarrow> x < 70001 \<Longrightarrow> find (inRange x) taxRanges = None"
  by (simp add: table_defs)

lemma no_range_g6: "100000 < x \<Longrightarrow> x < 100001 \<Longrightarrow> find (inRange x) taxRanges = None"
  by (simp add: table_defs)

lemma no_range_g7: "400000 < x \<Longrightarrow> x < 400001 \<Longrightarrow> find (inRange x) taxRanges = None"
  by (simp add: table_defs)

lemma no_range_g8: "600000 < x \<Longrightarrow> x < 600001 \<Longrightarrow> find (inRange x) taxRanges = None"
  by (simp add: table_defs)

lemma no_range_g9: "2000000 < x \<Longrightarrow> x < 2000001 \<Longrightarrow> find (inRange x) taxRanges = None"
  by (simp add: table_defs)

lemma no_range_zero: "find (inRange x) taxRanges = None \<Longrightarrow> calculateTax x = 0"
  by (simp add: calculateTax_def)

subsection \<open>The bracket walk: bounds and monotonicity\<close>

lemma taxLoop_ge: "wellFormed bs \<Longrightarrow> t \<le> taxLoop bs t r"
proof (induction bs arbitrary: t r)
  case Nil
  then show ?case by simp
next
  case (Cons b bs)
  from Cons.prems have wf: "wellFormed bs" and rt: "0 \<le> rate b"
    and w: "\<And>m. bracket_max b = Some m \<Longrightarrow> bracket_min b \<le> m + 1"
    by (auto simp: wellFormed_def)
  show ?case
  proof (cases "r \<le> 0")
    case True
    then show ?thesis by simp
  next
    case False
    define a where "a = (case bracket_max b of None \<Rightarrow> r
      | Some m \<Rightarrow> if m \<noteq> 0 then min r (m - bracket_min b + 1) else r)"
    have "0 \<le> a" using False w by (auto simp: a_def split: option.splits)
    then have "0 \<le> a * rate b / 100" using rt by simp
    moreover have "t + a * rate b / 100 \<le> taxLoop bs (t + a * rate b / 100) (r - a)"
      by (rule Cons.IH [OF wf])
    moreover have "taxLoop (b # bs) t r = taxLoop bs (t + a * rate b / 100) (r - a)"
      using False by (simp add: a_def Let_def)
    ultimately show ?thesis by linarith
  qed
qed

lemma taxLoop_mono:
  "wellFormed bs \<Longrightarrow> t \<le> t' \<Longrightarrow> r \<le> r' \<Longrightarrow> taxLoop bs t r \<le> taxLoop bs t' r'"
proof (induction bs arbitrary: t t' r r')
  case Nil
  then show ?case by simp
next
  case (Cons b bs)
  from Cons.prems have wf: "wellFormed bs" and wfb: "wellFormed (b # bs)"
    and rt: "0 \<le> rate b"
    by (auto simp: wellFormed_def)
  show ?case
  proof (cases "r \<le> 0")
    case True
    then have "taxLoop (b # bs) t r = t" by simp
    also have "\<dots> \<le> t'" by (rule Cons.prems)
    also have "t' \<le> taxLoop (b # bs) t' r'" by (rule taxLoop_ge [OF wfb])
    finally show ?thesis .
  next
    case False
    with Cons.prems have pos': "\<not> r' \<le> 0" by simp
    define f where "f = (\<lambda>x. case bracket_max b of None \<Rightarrow> x
      | Some m \<Rightarrow> if m \<noteq> 0 then min x (m - bracket_min b + 1) else x)"
    have a: "f r \<le> f r'"
      using Cons.prems(3) by (auto simp: f_def split: option.splits)
    have d: "r - f r \<le> r' - f r'"
      using Cons.prems(3) by (auto simp: f_def min_def split: option.splits)
    have "f r * rate b \<le> f r' * rate b" using a rt by (rule mult_right_mono)
    then have c: "t + f r * rate b / 100 \<le> t' + f r' * rate b / 100"
      using Cons.prems(2) by simp
    have "taxLoop (b # bs) t r = taxLoop bs (t + f r * rate b / 100) (r - f r)"
      using False by (simp add: f_def Let_def)
    moreover have "taxLoop (b # bs) t' r' = taxLoop bs (t' + f r' * rate b / 100) (r' - f r')"
      using pos' by (simp add: f_def Let_def)
    ultimately show ?thesis using Cons.IH [OF wf c d] by simp
  qed
qed

lemma wellFormed_taxBrackets_loop: "wellFormed taxBrackets_loop"
  by (simp add: wellFormed_def taxBrackets_loop_def mkBracket_def)

lemma wellFormed_taxBrackets: "wellFormed taxBrackets"
  by (simp add: wellFormed_def taxBrackets_def mkBracket_def)

lemma calculateTax_loop_mono: "x \<le> y \<Longrightarrow> calculateTax_loop x \<le> calculateTax_loop y"
  unfolding calculateTax_loop_def
  by (rule taxLoop_mono [OF wellFormed_taxBrackets_loop]) simp_all

lemma calculateTax_loop_nonneg: "0 \<le> calculateTax_loop x"
  unfolding calculateTax_loop_def by (rule taxLoop_ge [OF wellFormed_taxBrackets_loop])

lemma calculateTax_loop_nonpos: "x \<le> 0 \<Longrightarrow> calculateTax_loop x = 0"
  by (simp add: calculateTax_loop_def taxBrackets_loop_def)

subsection \<open>Closed form of the walk over the table of the fixed-amount revision\<close>

lemma walk_first: "x \<le> 5001 \<Longrightarrow> taxLoop taxBrackets 0 x = 0"
  by (simp add: taxBrackets_def mkBracket_def min_def)

lemma walk_r2:
  "5001 \<le> x \<Longrightarrow> x \<le> 20001 \<Longrightarrow> taxLoop taxBrackets 0 x = (x - 5001) * 1 / 100"
  by (simp add: taxBrackets_def mkBracket_def min_def)

lemma walk_r3:
  "20001 \<le> x \<Longrightarrow> x \<le> 35001 \<Longrightarrow> taxLoop taxBrackets 0 x = 150 + (x - 20001) * 3 / 100"
  by (simp add: taxBrackets_def mkBracket_def min_def)

lemma walk_r4:
  "35001 \<le> x \<Longrightarrow> x \<le> 50001 \<Longrightarrow> taxLoop taxBrackets 0 x = 600 + (x - 35001) * 6 / 100"
  by (simp add: taxBrackets_def mkBracket_def min_def)

lemma walk_r5:
  "50001 \<le> x \<Longrightarrow> x \<le> 70001 \<Longrightarrow> taxLoop taxBrackets 0 x = 1500 + (x - 50001) * 11 / 100"
  by (simp add: taxBrackets_def mkBracket_def min_def)

lemma walk_r6:
  "70001 \<le> x \<Longrightarrow> x \<le> 100001 \<Longrightarrow> taxLoop taxBrackets 0 x = 3700 + (x - 70001) * 19 / 100"
  by (simp add: taxBrackets_def mkBracket_def min_def)

lemma walk_r7:
  "100001 \<le> x \<Longrightarrow> x \<le> 400001 \<Longrightarrow>
    taxLoop taxBrackets 0 x = 9400 + (x - 100001) * 25 / 100"
  by (simp add: taxBrackets_def mkBracket_def min_def)

lemma walk_r8:
  "400001 \<le> x \<Longrightarrow> x \<le> 600001 \<Longrightarrow>
    taxLoop taxBrackets 0 x = 84400 + (x - 400001) * 26 / 100"
  by (simp add: taxBrackets_def mkBracket_def min_def)

lemma walk_r9:
  "600001 \<le> x \<Longrightarrow> x \<le> 2000001 \<Longrightarrow>
    taxLoop taxBrackets 0 x = 136400 + (x - 600001) * 28 / 100"
  by (simp add: taxBrackets_def mkBracket_def min_def)

lemma walk_r10:
  "2000001 \<le> x \<Longrightarrow> taxLoop taxBrackets 0 x = 528400 + (x - 2000001) * 30 / 100"
  by (simp add: taxBrackets_def mkBracket_def min_def)

lemma calculateTax_eq_walk:
  assumes "find (inRange x) taxRanges \<noteq> None"
  shows "calculateTax x = taxLoop taxBrackets 0 x"
  using inRange_cases [OF assms]
  by (elim disjE conjE)
     (simp_all add: calculateTax_first calculateTax_closed walk_first walk_r2 walk_r3 walk_r4
        walk_r5 walk_r6 walk_r7 walk_r8 walk_r9 walk_r10)

text \<open>The first three brackets of \<open>App.tsx\<close> are those of the fixed-amount revision.\<close>

lemma loop_first: "x \<le> 5001 \<Longrightarrow> calculateTax_loop x = 0"
  by (simp add: calculateTax_loop_def taxBrackets_loop_def mkBracket_def min_def)

lemma loop_r2:
  "5001 \<le> x \<Longrightarrow> x \<le> 20001 \<Longrightarrow> calculateTax_loop x = (x - 5001) * 1 / 100"
  by (simp add: calculateTax_loop_def taxBrackets_loop_def mkBracket_def min_def)

lemma loop_r3:
  "20001 \<le> x \<Longrightarrow> x \<le> 35001 \<Longrightarrow> calculateTax_loop x = 150 + (x - 20001) * 3 / 100"
  by (simp add: calculateTax_loop_def taxBrackets_loop_def mkBracket_def min_def)

lemma calculateTax_loop_eq_low:
  assumes "find (inRange x) taxRanges \<noteq> None" and "x \<le> 35001"
  shows "calculateTax_loop x = calculateTax x"
proof -
  from inRange_cases [OF assms(1)] assms(2)
  have "x \<le> 5000 \<or> (5001 \<le> x \<and> x \<le> 20000) \<or> (20001 \<le> x \<and> x \<le> 35000) \<or> x = 35001"
    by linarith
  then show ?thesis
    by (elim disjE conjE)
       (simp_all add: calculateTax_first calculateTax_closed loop_first loop_r2 loop_r3)
qed

lemma loop_r4:
  "35001 \<le> x \<Longrightarrow> x \<le> 50001 \<Longrightarrow> calculateTax_loop x = 600 + (x - 35001) * 8 / 100"
  by (simp add: calculateTax_loop_def taxBrackets_loop_def mkBracket_def min_def)

lemma loop_r5:
  "50001 \<le> x \<Longrightarrow> x \<le> 70001 \<Longrightarrow> calculateTax_loop x = 1800 + (x - 50001) * 13 / 100"
  by (simp add: calculateTax_loop_def taxBrackets_loop_def mkBracket_def min_def)

lemma loop_r6:
  "70001 \<le> x \<Longrightarrow> x \<le> 100001 \<Longrightarrow> calculateTax_loop x = 4400 + (x - 70001) * 21 / 100"
  by (simp add: calculateTax_loop_def taxBrackets_loop_def mkBracket_def min_def)

lemma loop_r7:
  "100001 \<le> x \<Longrightarrow> x \<le> 250001 \<Longrightarrow> calculateTax_loop x = 10700 + (x - 100001) * 24 / 100"
  by (simp add: calculateTax_loop_def taxBrackets_loop_def mkBracket_def min_def)

lemma loop_r8:
  "250001 \<le> x \<Longrightarrow> x \<le> 400001 \<Longrightarrow> calculateTax_loop x = 46700 + (x - 250001) * 24.5 / 100"
  by (simp add: calculateTax_loop_def taxBrackets_loop_def mkBracket_def min_def)

lemma loop_r9:
  "400001 \<le> x \<Longrightarrow> x \<le> 600001 \<Longrightarrow> calculateTax_loop x = 83450 + (x - 400001) * 25 / 100"
  by (simp add: calculateTax_loop_def taxBrackets_loop_def mkBracket_def min_def)

lemma loop_r10:
  "600001 \<le> x \<Longrightarrow> x \<le> 1000001 \<Longrightarrow> calculateTax_loop x = 133450 + (x - 600001) * 26 / 100"
  by (simp add: calculateTax_loop_def taxBrackets_loop_def mkBracket_def min_def)

lemma loop_r11:
  "1000001 \<le> x \<Longrightarrow> calculateTax_loop x = 237450 + (x - 1000001) * 28 / 100"
  by (simp add: calculateTax_loop_def taxBrackets_loop_def mkBracket_def min_def)

lemma walk_above_lookup_r4:
  assumes "35001 < x" and "x \<le> 50000"
  shows "calculateTax x < calculateTax_loop x"
proof -
  have a: "calculateTax_loop x = 600 + (x - 35001) * 8 / 100" using assms by (simp add: loop_r4)
  have b: "calculateTax x = 600 + (x - 35001) * 6 / 100" using assms by (simp add: calculateTax_r4)
  show ?thesis unfolding a b using assms by argo
qed

lemma walk_above_lookup_r5:
  assumes "50001 \<le> x" and "x \<le> 70000"
  shows "calculateTax x < calculateTax_loop x"
proof -
  have a: "calculateTax_loop x = 1800 + (x - 50001) * 13 / 100" using assms by (simp add: loop_r5)
  have b: "calculateTax x = 1500 + (x - 50001) * 11 / 100" using assms by (simp add: calculateTax_r5)
  show ?thesis unfolding a b using assms by argo
qed

lemma walk_above_lookup_r6:
  assumes "70001 \<le> x" and "x \<le> 100000"
  shows "calculateTax x < calculateTax_loop x"
proof -
  have a: "calculateTax_loop x = 4400 + (x - 70001) * 21 / 100" using assms by (simp add: loop_r6)
  have b: "calculateTax x = 3700 + (x - 70001) * 19 / 100" using assms by (simp add: calculateTax_r6)
  show ?thesis unfolding a b using assms by argo
qed

lemma walk_meets_lookup_r7:
  assumes "100001 \<le> x" and "x \<le> 250001"
  shows "calculateTax_loop x = calculateTax x \<longleftrightarrow> x = 230001"
proof -
  have a: "calculateTax_loop x = 10700 + (x - 100001) * 24 / 100" using assms by (simp add: loop_r7)
  have b: "calculateTax x = 9400 + (x - 100001) * 25 / 100" using assms by (simp add: calculateTax_r7)
  show ?thesis unfolding a b using assms by argo
qed

lemma walk_below_lookup_r7:
  assumes "250001 \<le> x" and "x \<le> 400000"
  shows "calculateTax_loop x < calculateTax x"
proof -
  have a: "calculateTax_loop x = 46700 + (x - 250001) * 24.5 / 100" using assms by (simp add: loop_r8)
  have b: "calculateTax x = 9400 + (x - 100001) * 25 / 100" using assms by (simp add: calculateTax_r7)
  show ?thesis unfolding a b using assms by argo
qed

lemma walk_below_lookup_r8:
  assumes "400001 \<le> x" and "x \<le> 600000"
  shows "calculateTax_loop x < calculateTax x"
proof -
  have a: "calculateTax_loop x = 83450 + (x - 400001) * 25 / 100" using assms by (simp add: loop_r9)
  have b: "calculateTax x = 84400 + (x - 400001) * 26 / 100" using assms by (simp add: calculateTax_r8)
  show ?thesis unfolding a b using assms by argo
qed

lemma walk_below_lookup_r9a:
  assumes "600001 \<le> x" and "x \<le> 1000001"
  shows "calculateTax_loop x < calculateTax x"
proof -
  have a: "calculateTax_loop x = 133450 + (x - 600001) * 26 / 100" using assms by (simp add: loop_r10)
  have b: "calculateTax x = 136400 + (x - 600001) * 28 / 100" using assms by (simp add: calculateTax_r9)
  show ?thesis unfolding a b using assms by argo
qed

lemma walk_below_lookup_r9b:
  assumes "1000001 \<le> x" and "x \<le> 2000000"
  shows "calculateTax_loop x < calculateTax x"
proof -
  have a: "calculateTax_loop x = 237450 + (x - 1000001) * 28 / 100" using assms by (simp add: loop_r11)
  have b: "calculateTax x = 136400 + (x - 600001) * 28 / 100" using assms by (simp add: calculateTax_r9)
  show ?thesis unfolding a b using assms by argo
qed

lemma walk_below_lookup_r10:
  assumes "2000001 \<le> x"
  shows "calculateTax_loop x < calculateTax x"
proof -
  have a: "calculateTax_loop x = 237450 + (x - 1000001) * 28 / 100" using assms by (simp add: loop_r11)
  have b: "calculateTax x = 528400 + (x - 2000001) * 30 / 100" using assms by (simp add: calculateTax_r10)
  show ?thesis unfolding a b using assms by argo
qed

text \<open>
  Where the walk of \<open>App.tsx\<close> and the lookup meet: above 35,001 the older schedule of
  the walk is ahead until the two cross at 230,001, and behind from there on.
\<close>

lemma calculateTax_loop_eq_iff:
  assumes "find (inRange x) taxRanges \<noteq> None"
  shows "calculateTax_loop x = calculateTax x \<longleftrightarrow> x \<le> 35001 \<or> x = 230001"
proof (cases "x \<le> 35001")
  case True
  then show ?thesis by (simp add: calculateTax_loop_eq_low [OF assms])
next
  case False
  with inRange_cases [OF assms]
  consider (a) "35001 < x" "x \<le> 50000" | (b) "50001 \<le> x" "x \<le> 70000"
    | (c) "70001 \<le> x" "x \<le> 100000" | (d) "100001 \<le> x" "x \<le> 250001"
    | (e) "250001 \<le> x" "x \<le> 400000" | (f) "400001 \<le> x" "x \<le> 600000"
    | (g) "600001 \<le> x" "x \<le> 1000001" | (h) "1000001 \<le> x" "x \<le> 2000000"
    | (j) "2000001 \<le> x"
    by linarith
  then show ?thesis
  proof cases
    case a then show ?thesis using walk_above_lookup_r4 [of x] by simp
  next
    case b then show ?thesis using walk_above_lookup_r5 [of x] by simp
  next
    case c then show ?thesis using walk_above_lookup_r6 [of x] by simp
  next
    case d then show ?thesis using walk_meets_lookup_r7 [of x] by simp
  next
    case e then show ?thesis using walk_below_lookup_r7 [of x] by simp
  next
    case f then show ?thesis using walk_below_lookup_r8 [of x] by simp
  next
    case g then show ?thesis using walk_below_lookup_r9a [of x] by simp
  next
    case h then show ?thesis using walk_below_lookup_r9b [of x] by simp
  next
    case j then show ?thesis using walk_below_lookup_r10 [of x] by simp
  qed
qed

lemma integer_income_in_range: "find (inRange (real n)) taxRanges \<noteq> None"
proof -
  have "n \<le> 5000 \<or> (5001 \<le> n \<and> n \<le> 20000) \<or> (20001 \<le> n \<and> n \<le> 35000)
      \<or> (35001 \<le> n \<and> n \<le> 50000) \<or> (50001 \<le> n \<and> n \<le> 70000)
      \<or> (70001 \<le> n \<and> n \<le> 100000) \<or> (100001 \<le> n \<and> n \<le> 400000)
      \<or> (400001 \<le> n \<and> n \<le> 600000) \<or> (600001 \<le> n \<and> n \<le> 2000000) \<or> 2000001 \<le> n"
    by arith
  then show ?thesis
    by (elim disjE conjE) (simp_all add: table_defs)
qed

lemma calculateTax_mono_in_ranges:
  assumes "find (inRange x) taxRanges \<noteq> None" and "find (inRange y) taxRanges \<noteq> None"
    and "x \<le> y"
  shows "calculateTax x \<le> calculateTax y"
  unfolding calculateTax_eq_walk [OF assms(1)] calculateTax_eq_walk [OF assms(2)]
  by (rule taxLoop_mono [OF wellFormed_taxBrackets]) (simp_all add: assms(3))

lemma calculateTax_nonneg_aux: "0 \<le> calculateTax x"
proof (cases "find (inRange x) taxRanges")
  case None
  then show ?thesis by (simp add: no_range_zero)
next
  case (Some r)
  then have "calculateTax x = taxLoop taxBrackets 0 x" by (simp add: calculateTax_eq_walk)
  then show ?thesis using taxLoop_ge [OF wellFormed_taxBrackets, of 0 x] by simp
qed

subsection \<open>The lookup between two ranges\<close>

text \<open>
  C8. In the fixed-amount revision every income strictly between the upper bound of a
  range and the start of the next one (for instance any income in the open interval from
  5000 to 5001) matches no range, and \<open>calculateTax\<close> returns 0 for it. Incomes around the
  gap are taxed: the income one unit above the start of the next range has a positive tax,
  and, for every gap but the first (below which the rate is 0), so has the income at the
  upper bound just below the gap.
\<close>

theorem calculateTax_between_ranges:
  assumes "k < length taxRanges - 1" and "range_next (taxRanges ! k) = Some ub"
    and "ub < x" and "x < range_start (taxRanges ! (k + 1))"
  shows "find (inRange x) taxRanges = None \<and> calculateTax x = 0
       \<and> 0 < calculateTax (range_start (taxRanges ! (k + 1)) + 1)
       \<and> (0 < k \<longrightarrow> 0 < calculateTax ub)"
proof -
  from assms(1) have "k < 9" by (simp add: taxRanges_def)
  then have "k = 0 \<or> k = 1 \<or> k = 2 \<or> k = 3 \<or> k = 4 \<or> k = 5 \<or> k = 6 \<or> k = 7 \<or> k = 8"
    by (rule nat_less_9)
  then consider "k = 0" | "k = 1" | "k = 2" | "k = 3" | "k = 4" | "k = 5" | "k = 6" | "k = 7"
    | "k = 8"
    by blast
  then show ?thesis
  proof cases
    case 1
    with assms(2,3,4) have "5000 < x" and "x < 5001"
      by (simp_all add: taxRanges_def mkRange_def)
    then have "find (inRange x) taxRanges = None" by (rule no_range_g1)
    then show ?thesis
      using 1 by (simp add: no_range_zero taxRanges_def mkRange_def calculateTax_closed)
  next
    case 2
    with assms(2,3,4) have "20000 < x" and "x < 20001" and u: "ub = 20000"
      by (simp_all add: taxRanges_def mkRange_def)
    then have "find (inRange x) taxRanges = None" by (simp add: no_range_g2)
    then show ?thesis
      using 2 u by (simp add: no_range_zero taxRanges_def mkRange_def calculateTax_closed)
  next
    case 3
    with assms(2,3,4) have "35000 < x" and "x < 35001" and u: "ub = 35000"
      by (simp_all add: taxRanges_def mkRange_def)
    then have "find (inRange x) taxRanges = None" by (simp add: no_range_g3)
    then show ?thesis
      using 3 u by (simp add: no_range_zero taxRanges_def mkRange_def calculateTax_closed)
  next
    case 4
    with assms(2,3,4) have "50000 < x" and "x < 50001" and u: "ub = 50000"
      by (simp_all add: taxRanges_def mkRange_def)
    then have "find (inRange x) taxRanges = None" by (simp add: no_range_g4)
    then show ?thesis
      using 4 u by (simp add: no_range_zero taxRanges_def mkRange_def calculateTax_closed)
  next
    case 5
    with assms(2,3,4) have "70000 < x" and "x < 70001" and u: "ub = 70000"
      by (simp_all add: taxRanges_def mkRange_def)
    then have "find (inRange x) taxRanges = None" by (simp add: no_range_g5)
    then show ?thesis
      using 5 u by (simp add: no_range_zero taxRanges_def mkRange_def calculateTax_closed)
  next
    case 6
    with assms(2,3,4) have "100000 < x" and "x < 100001" and u: "ub = 100000"
      by (simp_all add: taxRanges_def mkRange_def)
    then have "find (inRange x) taxRanges = None" by (simp add: no_range_g6)
    then show ?thesis
      using 6 u by (simp add: no_range_zero taxRanges_def mkRange_def calculateTax_closed)
  next
    case 7
    with assms(2,3,4) have "400000 < x" and "x < 400001" and u: "ub = 400000"
      by (simp_all add: taxRanges_def mkRange_def)
    then have "find (inRange x) taxRanges = None" by (simp add: no_range_g7)
    then show ?thesis
      using 7 u by (simp add: no_range_zero taxRanges_def mkRange_def calculateTax_closed)
  next
    case 8
    with assms(2,3,4) have "600000 < x" and "x < 600001" and u: "ub = 600000"
      by (simp_all add: taxRanges_def mkRange_def)
    then have "find (inRange x) taxRanges = None" by (simp add: no_range_g8)
    then show ?thesis
      using 8 u by (simp add: no_range_zero taxRanges_def mkRange_def calculateTax_closed)
  next
    case 9
    with assms(2,3,4) have "2000000 < x" and "x < 2000001" and u: "ub = 2000000"
      by (simp_all add: taxRanges_def mkRange_def)
    then have "find (inRange x) taxRanges = None" by (simp add: no_range_g9)
    then show ?thesis
      using 9 u by (simp add: no_range_zero taxRanges_def mkRange_def calculateTax_closed)
  qed
qed

theorem calculateTax_between_ranges_witness:
  "(1::nat) < length taxRanges - 1 \<and> range_next (taxRanges ! 1) = Some 20000
   \<and> (20000::real) < 20000.5 \<and> 20000.5 < range_start (taxRanges ! (1 + 1))
   \<and> find (inRange 20000.5) taxRanges = None \<and> calculateTax 20000.5 = 0
   \<and> 0 < calculateTax (range_start (taxRanges ! (1 + 1)) + 1)
   \<and> 0 < calculateTax 20000"
proof -
  have h1: "(1::nat) < length taxRanges - 1" by (simp add: taxRanges_def)
  have h2: "range_next (taxRanges ! 1) = Some 20000" by (simp add: taxRanges_def mkRange_def)
  have h3: "(20000::real) < 20000.5" by simp
  have h4: "20000.5 < range_start (taxRanges ! (1 + 1))"
    by (simp add: taxRanges_def mkRange_def)
  from calculateTax_between_ranges [OF h1 h2 h3 h4] h1 h2 h3 h4 show ?thesis by simp
qed

subsection \<open>The worked scenario\<close>

text \<open>
  C2. Income 100,000 with only the personal deduction of 9,000 (nothing else claimed, no
  contributions, no rebates): the taxable income is 91,000, it lies in the range starting
  at 70,001 with fixed amount 3,700 and rate 19, the tax is
  3700 + (91000 - 70001) * 0.19 = 7689.81, and the effective rate is 7.68981, which is
  7.69 to two decimals.
\<close>

theorem summary_income_100000:
  "deductions (handleIncomeChange ''100000'' initialState) = [(''personal'', 9000)]
   \<and> find (inRange 91000) taxRanges = Some (mkRange 70001 (Some 100000) 3700)
   \<and> find (inBracket 91000) taxBrackets = Some (mkBracket 70001 (Some 100000) 19)
   \<and> computeSummary (handleIncomeChange ''100000'' initialState)
       = \<lparr>totalDeductions = 9000, taxableIncome = 91000,
          taxAmount = 3700 + (91000 - 70001) * 0.19, effectiveRate = 7.68981\<rparr>
   \<and> 3700 + (91000 - 70001) * 0.19 = (7689.81 :: real)
   \<and> \<bar>7.68981 - 7.69\<bar> < (0.005 :: real)"
proof -
  have st: "handleIncomeChange ''100000'' initialState
      = \<lparr>annualIncome = ''100,000'', epfAmount = [], socsoAmount = [],
         deductions = [(''personal'', 9000)],
         rebates = [(''individual'', 0), (''spouse'', 0), (''zakat'', 0)]\<rparr>"
    by (simp add: handleIncomeChange_def initialState_def formatNumber_def isDigit_def
        defaultDeductions_def availableDeductions_def mkDeduction_def)
  have inc: "parseAmount ''100,000'' = 100000" by (simp add: parse_defs)
  have emp: "parseAmount [] = 0" by (simp add: parse_defs)
  have tax: "calculateTax 91000 = 7689.81" by (simp add: calculateTax_r6)
  have rng: "find (inRange 91000) taxRanges = Some (mkRange 70001 (Some 100000) 3700)"
    by (simp add: table_defs)
  have brk: "find (inBracket 91000) taxBrackets = Some (mkBracket 70001 (Some 100000) 19)"
    by (simp add: table_defs)
  have sm: "computeSummary (handleIncomeChange ''100000'' initialState)
       = \<lparr>totalDeductions = 9000, taxableIncome = 91000,
          taxAmount = 3700 + (91000 - 70001) * 0.19, effectiveRate = 7.68981\<rparr>"
    unfolding st by (simp add: computeSummary_def calculateSocso_def inc emp tax)
  have ds: "deductions (handleIncomeChange ''100000'' initialState) = [(''personal'', 9000)]"
    unfolding st by simp
  from ds rng brk sm show ?thesis by simp
qed

subsection \<open>The two formulations\<close>

text \<open>
  C1, as stated: the bracket walk of \<open>App.tsx\<close> and the range lookup of the fixed-amount
  revision give the same tax for every income from 0 upwards. This fails: the two sources
  carry different rate schedules from the fourth bracket on, so at 40,000 the walk gives
  999.92 and the lookup 899.94.
\<close>

theorem formulations_differ_at_40000:
  "calculateTax_loop 40000 = 999.92 \<and> calculateTax 40000 = 899.94
   \<and> calculateTax_loop 40000 \<noteq> calculateTax 40000"
proof -
  have a: "calculateTax_loop 40000 = 999.92"
    by (simp add: calculateTax_loop_def taxBrackets_loop_def mkBracket_def)
  have b: "calculateTax 40000 = 899.94" by (simp add: calculateTax_r4)
  from a b show ?thesis by simp
qed

text \<open>
  C1, amended. For every income that lies in some range of \<open>taxRanges\<close>, the range lookup
  equals the bracket walk run over the lookup's own bracket table. The walk of \<open>App.tsx\<close>
  as written equals the lookup on such an income exactly when the income is at most
  35,001, where the two rate schedules coincide, or is 230,001, where they cross. Every
  non-negative integer income lies in a range.
\<close>

theorem formulations_agree_in_ranges:
  "(find (inRange x) taxRanges \<noteq> None \<longrightarrow>
      calculateTax x = taxLoop taxBrackets 0 x
      \<and> (x \<le> 35001 \<longrightarrow> calculateTax_loop x = calculateTax x)
      \<and> (calculateTax_loop x = calculateTax x \<longleftrightarrow> x \<le> 35001 \<or> x = 230001))
   \<and> find (inRange (real n)) taxRanges \<noteq> None"
proof (intro conjI impI)
  assume r: "find (inRange x) taxRanges \<noteq> None"
  show "calculateTax x = taxLoop taxBrackets 0 x" by (rule calculateTax_eq_walk [OF r])
  show "calculateTax_loop x = calculateTax x \<longleftrightarrow> x \<le> 35001 \<or> x = 230001"
    by (rule calculateTax_loop_eq_iff [OF r])
  show "calculateTax_loop x = calculateTax x" if "x \<le> 35001"
    using that by (rule calculateTax_loop_eq_low [OF r])
next
  show "find (inRange (real n)) taxRanges \<noteq> None" by (rule integer_income_in_range)
qed

theorem formulations_agree_in_ranges_witness:
  "find (inRange 30000) taxRanges \<noteq> None \<and> (30000::real) \<le> 35001
   \<and> calculateTax 30000 = taxLoop taxBrackets 0 30000
   \<and> calculateTax_loop 30000 = calculateTax 30000
   \<and> calculateTax 30000 = 449.97
   \<and> find (inRange 230001) taxRanges \<noteq> None
   \<and> calculateTax_loop 230001 = calculateTax 230001
   \<and> calculateTax 230001 = 41900
   \<and> find (inRange 230000) taxRanges \<noteq> None
   \<and> calculateTax_loop 230000 \<noteq> calculateTax 230000"
proof -
  have h: "find (inRange 30000) taxRanges \<noteq> None" by (simp add: table_defs)
  have v: "calculateTax 30000 = 449.97" by (simp add: calculateTax_r3)
  have h': "find (inRange 230001) taxRanges \<noteq> None" by (simp add: table_defs)
  have v': "calculateTax 230001 = 41900" by (simp add: calculateTax_r7)
  have h'': "find (inRange 230000) taxRanges \<noteq> None" by (simp add: table_defs)
  from formulations_agree_in_ranges [of 30000 0] h v
  have a: "calculateTax 30000 = taxLoop taxBrackets 0 30000
      \<and> calculateTax_loop 30000 = calculateTax 30000"
    by simp
  from formulations_agree_in_ranges [of 230001 0] h'
  have b: "calculateTax_loop 230001 = calculateTax 230001" by simp
  from formulations_agree_in_ranges [of 230000 0] h''
  have c: "calculateTax_loop 230000 \<noteq> calculateTax 230000" by simp
  from a b c h v h' v' h'' show ?thesis by simp
qed

subsection \<open>Monotonicity\<close>

text \<open>
  C4. The tax is claimed to be non-decreasing over all non-negative real incomes in each
  variant. The walk is (\<open>calculateTax_loop_mono\<close>), and so is the lookup on incomes that
  lie in a range (\<open>calculateTax_mono_in_ranges\<close>); but the lookup returns 0 between two
  ranges, so the tax falls from 149.99 at 20,000 to 0 at 20,000.5. Both incomes are
  reachable: they are the taxable incomes for 29,000 and 29,000.5 typed into the income
  field with the preset personal deduction.
\<close>

theorem calculateTax_falls_after_20000:
  "calculateTax 20000 = 149.99 \<and> calculateTax 20000.5 = 0
   \<and> \<not> calculateTax 20000 \<le> calculateTax 20000.5
   \<and> taxableIncome (computeSummary (handleIncomeChange ''29000'' initialState)) = 20000
   \<and> taxAmount (computeSummary (handleIncomeChange ''29000'' initialState)) = 149.99
   \<and> taxableIncome (computeSummary (handleIncomeChange ''29000.5'' initialState)) = 20000.5
   \<and> taxAmount (computeSummary (handleIncomeChange ''29000.5'' initialState)) = 0"
proof -
  have a: "calculateTax 20000 = 149.99" by (simp add: calculateTax_r2)
  have b: "calculateTax 20000.5 = 0" by (simp add: no_range_zero no_range_g2)
  have b': "calculateTax (40001 / 2) = 0" by (simp add: no_range_zero no_range_g2)
  have f1: "formatNumber ''29000'' = ''29,000''" by (simp add: formatNumber_def isDigit_def)
  have f2: "formatNumber ''29000.5'' = ''29,000.5''"
    by (simp add: formatNumber_def isDigit_def)
  have p1: "parseAmount ''29,000'' = 29000" by (simp add: parse_defs)
  have p2: "parseAmount ''29,000.5'' = 29000.5" by (simp add: parse_defs)
  have emp: "parseAmount [] = 0" by (simp add: parse_defs)
  have dd: "defaultDeductions = [(''personal'', 9000)]"
    by (simp add: defaultDeductions_def availableDeductions_def mkDeduction_def)
  have s1: "computeSummary (handleIncomeChange ''29000'' initialState)
      = \<lparr>totalDeductions = 9000, taxableIncome = 20000, taxAmount = 149.99,
         effectiveRate = 149.99 / 29000 * 100\<rparr>"
    by (simp add: computeSummary_def calculateSocso_def handleIncomeChange_def
        initialState_def Let_def f1 p1 emp dd a)
  have s2: "computeSummary (handleIncomeChange ''29000.5'' initialState)
      = \<lparr>totalDeductions = 9000, taxableIncome = 20000.5, taxAmount = 0, effectiveRate = 0\<rparr>"
    by (simp add: computeSummary_def calculateSocso_def handleIncomeChange_def
        initialState_def Let_def f2 p2 emp dd b')
  from a b show ?thesis unfolding s1 s2 by simp
qed

subsection \<open>Totality and sign of the tax\<close>

text \<open>
  C10. Both \<open>calculateTax\<close> functions return a value on every real input (the lookup is a
  definition without recursion, the walk a structural recursion over the table), the value
  is never negative, and it is 0 for every income that is 0 or less: by the guard of the
  lookup, and because the walk leaves its loop at the first bracket.
\<close>

theorem calculateTax_total_nonneg:
  "0 \<le> calculateTax x \<and> 0 \<le> calculateTax_loop x
   \<and> (x \<le> 0 \<longrightarrow> calculateTax x = 0 \<and> calculateTax_loop x = 0)"
  by (simp add: calculateTax_nonneg_aux calculateTax_loop_nonneg calculateTax_loop_nonpos
      calculateTax_first)

theorem calculateTax_total_nonneg_witness:
  "(- 5 :: real) \<le> 0 \<and> calculateTax (- 5) = 0 \<and> calculateTax_loop (- 5) = 0
   \<and> 0 \<le> calculateTax (- 5) \<and> 0 \<le> calculateTax_loop (- 5)"
  using calculateTax_total_nonneg [of "- 5"] by simp

subsection \<open>Crossing a bracket boundary\<close>

text \<open>
  C5, as stated: at the upper bound of every bracket but the last, one more unit of income
  adds the marginal rate of the next bracket. This fails in both variants: from 20,000 to
  20,001 the tax grows by 0.01, the rate of the bracket that ends at 20,000, and not by 0.03.
\<close>

theorem boundary_step_not_next_rate:
  "bracket_max (taxBrackets ! 1) = Some 20000 \<and> rate (taxBrackets ! 2) = 3
   \<and> calculateTax 20000 + rate (taxBrackets ! 2) * 1 / 100 \<noteq> calculateTax (20000 + 1)
   \<and> bracket_max (taxBrackets_loop ! 1) = Some 20000 \<and> rate (taxBrackets_loop ! 2) = 3
   \<and> calculateTax_loop 20000 + rate (taxBrackets_loop ! 2) * 1 / 100
       \<noteq> calculateTax_loop (20000 + 1)"
proof -
  have a: "calculateTax 20000 = 149.99" by (simp add: calculateTax_r2)
  have b: "calculateTax 20001 = 150" by (simp add: calculateTax_r3)
  have c: "calculateTax_loop 20000 = 149.99" by (simp add: loop_r2)
  have d: "calculateTax_loop 20001 = 150" by (simp add: loop_r3)
  show ?thesis
    by (simp add: a b c d taxBrackets_rows taxBrackets_loop_rows mkBracket_def)
qed

lemma lookup_boundary:
  assumes "k < 9" and "bracket_max (taxBrackets ! k) = Some ub"
  shows "calculateTax (ub + 1) = calculateTax ub + rate (taxBrackets ! k) * 1 / 100"
  using nat_less_9 [OF assms(1)] assms(2)
  by (elim disjE)
     (simp_all add: taxBrackets_def mkBracket_def calculateTax_first calculateTax_closed)

lemma nat_less_10_cases:
  "(k::nat) < 10 \<Longrightarrow> k < 9 \<or> k = 9"
  by arith

lemma walk_boundary:
  assumes "k < 10" and "bracket_max (taxBrackets_loop ! k) = Some ub"
  shows "calculateTax_loop (ub + 1) = calculateTax_loop ub + rate (taxBrackets_loop ! k) * 1 / 100"
proof -
  from assms(1) have "k < 9 \<or> k = 9" by (rule nat_less_10_cases)
  then have "k = 0 \<or> k = 1 \<or> k = 2 \<or> k = 3 \<or> k = 4 \<or> k = 5 \<or> k = 6 \<or> k = 7 \<or> k = 8
      \<or> k = 9"
    using nat_less_9 [of k] by blast
  then have "(ub = 5000 \<and> rate (taxBrackets_loop ! k) = 0)
      \<or> (ub = 20000 \<and> rate (taxBrackets_loop ! k) = 1)
      \<or> (ub = 35000 \<and> rate (taxBrackets_loop ! k) = 3)
      \<or> (ub = 50000 \<and> rate (taxBrackets_loop ! k) = 8)
      \<or> (ub = 70000 \<and> rate (taxBrackets_loop ! k) = 13)
      \<or> (ub = 100000 \<and> rate (taxBrackets_loop ! k) = 21)
      \<or> (ub = 250000 \<and> rate (taxBrackets_loop ! k) = 24)
      \<or> (ub = 400000 \<and> rate (taxBrackets_loop ! k) = 24.5)
      \<or> (ub = 600000 \<and> rate (taxBrackets_loop ! k) = 25)
      \<or> (ub = 1000000 \<and> rate (taxBrackets_loop ! k) = 26)"
    using assms(2) by (elim disjE) (simp_all add: taxBrackets_loop_def mkBracket_def)
  then show ?thesis
    by (elim disjE conjE)
       (simp_all add: calculateTax_loop_def taxBrackets_loop_def mkBracket_def)
qed

text \<open>
  C5, amended. In both variants, at the upper bound of every bracket but the last, one
  more unit of income adds the marginal rate of that same bracket: the unit that reaches
  the start of the next bracket is still taxed at the lower rate, once.
\<close>

theorem boundary_step_own_rate:
  "(k < length taxBrackets - 1 \<and> bracket_max (taxBrackets ! k) = Some ub \<longrightarrow>
      calculateTax (ub + 1) = calculateTax ub + rate (taxBrackets ! k) * 1 / 100)
   \<and> (j < length taxBrackets_loop - 1 \<and> bracket_max (taxBrackets_loop ! j) = Some vb \<longrightarrow>
      calculateTax_loop (vb + 1) = calculateTax_loop vb + rate (taxBrackets_loop ! j) * 1 / 100)"
proof -
  have a: "length taxBrackets - 1 = 9" by (simp add: taxBrackets_def)
  have b: "length taxBrackets_loop - 1 = 10" by (simp add: taxBrackets_loop_def)
  show ?thesis unfolding a b using lookup_boundary walk_boundary by blast
qed

theorem boundary_step_own_rate_witness:
  "(1::nat) < length taxBrackets - 1 \<and> bracket_max (taxBrackets ! 1) = Some 20000
   \<and> calculateTax (20000 + 1) = calculateTax 20000 + rate (taxBrackets ! 1) * 1 / 100
   \<and> (7::nat) < length taxBrackets_loop - 1
   \<and> bracket_max (taxBrackets_loop ! 7) = Some 400000
   \<and> calculateTax_loop (400000 + 1)
       = calculateTax_loop 400000 + rate (taxBrackets_loop ! 7) * 1 / 100
   \<and> rate (taxBrackets ! 1) = 1 \<and> rate (taxBrackets_loop ! 7) = 24.5"
proof -
  have h1: "(1::nat) < length taxBrackets - 1" by (simp add: taxBrackets_def)
  have h2: "bracket_max (taxBrackets ! 1) = Some 20000"
    by (simp add: taxBrackets_rows mkBracket_def)
  have h3: "(7::nat) < length taxBrackets_loop - 1" by (simp add: taxBrackets_loop_def)
  have h4: "bracket_max (taxBrackets_loop ! 7) = Some 400000"
    by (simp add: taxBrackets_loop_rows mkBracket_def)
  have r: "rate (taxBrackets ! 1) = 1 \<and> rate (taxBrackets_loop ! 7) = 24.5"
    by (simp add: taxBrackets_rows taxBrackets_loop_rows mkBracket_def)
  from boundary_step_own_rate [of 1 20000 7 400000] h1 h2 h3 h4 r show ?thesis by blast
qed

subsection \<open>Rebates\<close>

lemma foldl_plus_sum_list:
  "foldl (\<lambda>sum value. sum + value) a xs = a + sum_list (xs :: real list)"
  by (induction xs arbitrary: a) simp_all

lemma parseAmount_empty: "parseAmount [] = 0"
  by (simp add: parse_defs)

lemma defaultDeductions_eq: "defaultDeductions = [(''personal'', 9000)]"
  by (simp add: defaultDeductions_def availableDeductions_def mkDeduction_def)

lemma income_100000_state:
  "handleIncomeChange ''100000'' initialState
     = \<lparr>annualIncome = ''100,000'', epfAmount = [], socsoAmount = [],
        deductions = [(''personal'', 9000)],
        rebates = [(''individual'', 0), (''spouse'', 0), (''zakat'', 0)]\<rparr>"
  by (simp add: handleIncomeChange_def initialState_def formatNumber_def isDigit_def
      defaultDeductions_eq)

lemma parseAmount_100000: "parseAmount ''100,000'' = 100000"
  by (simp add: parse_defs)

lemma calculateTax_91000: "calculateTax 91000 = 7689.81"
  by (simp add: calculateTax_r6)



text \<open>
  C9. A rebate is stored as it is parsed, with no clamp at 0: the field text \<open>-100\<close>
  stores \<open>-100\<close>, and the tax payable then exceeds the computed tax on the taxable income
  (here 7789.81 against 7689.81).
\<close>

theorem negative_rebate_raises_tax:
  "rebates (handleRebateChange i v s) = AList.update i (parseAmount v) (rebates s)
   \<and> map_of (rebates (handleRebateChange i v s)) i = Some (parseAmount v)
   \<and> parseAmount ''-100'' = - 100
   \<and> rebates (handleRebateChange ''zakat'' ''-100'' (handleIncomeChange ''100000'' initialState))
       = [(''individual'', 0), (''spouse'', 0), (''zakat'', - 100)]
   \<and> calculateTax (taxableIncome (computeSummary
        (handleRebateChange ''zakat'' ''-100'' (handleIncomeChange ''100000'' initialState))))
       = 7689.81
   \<and> taxAmount (computeSummary
        (handleRebateChange ''zakat'' ''-100'' (handleIncomeChange ''100000'' initialState)))
       = 7789.81
   \<and> calculateTax (taxableIncome (computeSummary
        (handleRebateChange ''zakat'' ''-100'' (handleIncomeChange ''100000'' initialState))))
       < taxAmount (computeSummary
        (handleRebateChange ''zakat'' ''-100'' (handleIncomeChange ''100000'' initialState)))"
proof -
  define t where
    "t = handleRebateChange ''zakat'' ''-100'' (handleIncomeChange ''100000'' initialState)"
  have p: "parseAmount ''-100'' = - 100" by (simp add: parse_defs)
  have st: "t = \<lparr>annualIncome = ''100,000'', epfAmount = [], socsoAmount = [],
        deductions = [(''personal'', 9000)],
        rebates = [(''individual'', 0), (''spouse'', 0), (''zakat'', - 100)]\<rparr>"
    by (simp add: t_def handleRebateChange_def income_100000_state p)
  have sm: "computeSummary t
      = \<lparr>totalDeductions = 9000, taxableIncome = 91000, taxAmount = 7789.81,
         effectiveRate = 7.78981\<rparr>"
    by (simp add: st computeSummary_def calculateSocso_def Let_def parseAmount_100000
        parseAmount_empty calculateTax_91000)
  have g1: "rebates (handleRebateChange i v s) = AList.update i (parseAmount v) (rebates s)"
    by (simp add: handleRebateChange_def)
  have g2: "map_of (rebates (handleRebateChange i v s)) i = Some (parseAmount v)"
    by (simp add: g1 update_conv')
  have c1: "rebates t = [(''individual'', 0), (''spouse'', 0), (''zakat'', - 100)]"
    by (simp add: st)
  have c2: "calculateTax (taxableIncome (computeSummary t)) = 7689.81"
    by (simp add: sm calculateTax_91000)
  have c3: "taxAmount (computeSummary t) = 7789.81" by (simp add: sm)
  have c4: "calculateTax (taxableIncome (computeSummary t)) < taxAmount (computeSummary t)"
    by (simp add: c2 c3)
  from g1 g2 p c1 c2 c3 c4 show ?thesis unfolding t_def by blast
qed

subsection \<open>Text that went through \<open>formatNumber\<close>\<close>

text \<open>
  The income field is stored formatted and parsed from the stored text, which holds digits,
  points and commas only: whatever is typed, the parsed income is not negative. (The EPF
  and SOCSO fields are stored the same way.) The deduction and rebate handlers compute the
  same formatted text but parse the text as typed.
\<close>

lemma set_addCommas: "set (addCommas xs) \<subseteq> insert (CHR '','') (set xs)"
  by (induction xs) auto

lemma no_minus_formatNumber: "CHR ''-'' \<notin> set (formatNumber v)"
proof -
  define nv where "nv = filter (\<lambda>c. isDigit c \<or> c = CHR ''.'') v"
  have nm: "CHR ''-'' \<notin> set nv" by (auto simp: nv_def isDigit_def)
  have a: "CHR ''-'' \<notin> set (takeWhile (\<lambda>c. c \<noteq> CHR ''.'') nv)"
    using nm by (auto dest: set_takeWhileD)
  have b: "CHR ''-'' \<notin> set (takeWhile (\<lambda>c. c \<noteq> CHR ''.'')
                            (drop 1 (dropWhile (\<lambda>c. c \<noteq> CHR ''.'') nv)))"
    using nm by (auto dest!: set_takeWhileD in_set_dropD set_dropWhileD)
  have c: "CHR ''-'' \<notin> set (addCommas (takeWhile (\<lambda>c. c \<noteq> CHR ''.'') nv))"
    using a set_addCommas by fastforce
  show ?thesis using b c by (simp add: formatNumber_def Let_def nv_def [symmetric])
qed

lemma stripSign_no_minus: "CHR ''-'' \<notin> set t \<Longrightarrow> fst (stripSign t) = False"
  by (cases t) (auto simp: stripSign_def)

lemma applyExponent_nonneg: "0 \<le> m \<Longrightarrow> 0 \<le> applyExponent m w"
  by (auto simp: applyExponent_def Let_def split: list.splits prod.splits)

lemma parseFloat_no_minus:
  assumes "CHR ''-'' \<notin> set t" and "parseFloat t = Some r"
  shows "0 \<le> r"
proof -
  have "CHR ''-'' \<notin> set (dropWhile isWhiteSpace t)"
    using assms(1) by (auto dest: set_dropWhileD)
  then have "fst (stripSign (dropWhile isWhiteSpace t)) = False"
    by (rule stripSign_no_minus)
  then obtain u where u: "stripSign (dropWhile isWhiteSpace t) = (False, u)"
    by (cases "stripSign (dropWhile isWhiteSpace t)") auto
  show ?thesis
    using assms(2)
    by (auto simp: parseFloat_def u Let_def applyExponent_nonneg
        split: list.splits if_splits prod.splits)
qed

lemma parseAmount_formatNumber_nonneg: "0 \<le> parseAmount (formatNumber v)"
proof (cases "parseFloat (filter (\<lambda>c. c \<noteq> CHR '','') (formatNumber v))")
  case None
  then show ?thesis by (simp add: parseAmount_def)
next
  case (Some r)
  have "CHR ''-'' \<notin> set (filter (\<lambda>c. c \<noteq> CHR '','') (formatNumber v))"
    using no_minus_formatNumber by simp
  then have "0 \<le> r" using Some by (rule parseFloat_no_minus)
  then show ?thesis by (simp add: parseAmount_def Some)
qed

lemma income_never_negative:
  "0 \<le> parseAmount (annualIncome (handleIncomeChange v s))"
  by (simp add: handleIncomeChange_def parseAmount_formatNumber_nonneg)

subsection \<open>Deduction entries\<close>

lemma list_all_update:
  "P (k, v) \<Longrightarrow> list_all P al \<Longrightarrow> list_all P (AList.update k v al)"
  by (induction al) auto

lemma withinCaps_initial: "withinCaps (deductions initialState)"
  by (simp add: withinCaps_def initialState_def defaultDeductions_eq availableDeductions_def
      mkDeduction_def)

lemma find_deduction_id:
  "find (\<lambda>d. deduction_id d = i) availableDeductions = Some d \<Longrightarrow> deduction_id d = i"
  by (auto simp: find_Some_iff)

lemma withinCaps_handleDeductionChange:
  assumes "withinCaps (deductions s)"
  shows "withinCaps (deductions (handleDeductionChange i v s))"
proof (cases "find (\<lambda>d. deduction_id d = i) availableDeductions")
  case None
  then show ?thesis using assms by (simp add: handleDeductionChange_def)
next
  case (Some d)
  have "list_all (\<lambda>(i, amount).
                 case find (\<lambda>d. deduction_id d = i) availableDeductions of
                   None \<Rightarrow> False
                 | Some d \<Rightarrow> amount \<le> maxAmount d)
          (AList.update i (min (parseAmount v) (maxAmount d)) (deductions s))"
    using assms by (intro list_all_update) (simp_all add: Some withinCaps_def)
  then show ?thesis by (simp add: handleDeductionChange_def Some withinCaps_def Let_def)
qed

text \<open>Any sequence of deduction edits, applied in order to a state.\<close>

lemma withinCaps_edits:
  "withinCaps (deductions s) \<Longrightarrow>
    withinCaps (deductions (foldl (\<lambda>st (i, v). handleDeductionChange i v st) s edits))"
proof (induction edits arbitrary: s)
  case Nil
  then show ?case by simp
next
  case (Cons e edits)
  obtain i v where e: "e = (i, v)" by (cases e)
  show ?case using Cons.IH [OF withinCaps_handleDeductionChange [OF Cons.prems, of i v]]
    by (simp add: e)
qed

lemma handleDeductionChange_nonneg_input:
  assumes "find (\<lambda>d. deduction_id d = i) availableDeductions = Some d"
    and "0 \<le> parseAmount v"
  shows "map_of (deductions (handleDeductionChange i v s)) i
           = Some (min (max (parseAmount v) 0) (maxAmount d))"
  using assms by (simp add: handleDeductionChange_def Let_def update_conv' max_def)

text \<open>
  C3. The claim is that a claimed amount is stored as \<open>min (max rawAmount 0) cap\<close>, so that
  every entry stays between 0 and its cap. The handler stores \<open>min rawAmount cap\<close>: the
  upper bound holds after any sequence of edits (\<open>withinCaps_edits\<close>), and the claimed
  value is stored for an amount that is not negative
  (\<open>handleDeductionChange_nonneg_input\<close>), but the field text \<open>-100\<close> stores \<open>-100\<close>,
  where the claim asks for 0.
\<close>

theorem negative_deduction_is_stored:
  "map_option maxAmount (find (\<lambda>d. deduction_id d = ''medical'') availableDeductions)
     = Some 8000
   \<and> parseAmount ''-100'' = - 100
   \<and> deductions (handleDeductionChange ''medical'' ''-100'' initialState)
       = [(''personal'', 9000), (''medical'', - 100)]
   \<and> map_of (deductions (handleDeductionChange ''medical'' ''-100'' initialState)) ''medical''
       \<noteq> Some (min (max (parseAmount ''-100'') 0) 8000)"
proof -
  have f: "find (\<lambda>d. deduction_id d = ''medical'') availableDeductions
      = Some (mkDeduction ''medical'' ''Special Medical Treatment for Self/Spouse/Child''
                 8000 None)"
    by (simp add: availableDeductions_def mkDeduction_def)
  have p: "parseAmount ''-100'' = - 100" by (simp add: parse_defs)
  have d: "deductions (handleDeductionChange ''medical'' ''-100'' initialState)
       = [(''personal'', 9000), (''medical'', - 100)]"
    by (simp add: handleDeductionChange_def f p mkDeduction_def initialState_def
        defaultDeductions_eq)
  show ?thesis by (simp add: f p d mkDeduction_def)
qed

subsection \<open>Signs of the summary\<close>

lemma computeSummary_nonneg:
  "0 \<le> taxableIncome (computeSummary s) \<and> 0 \<le> taxAmount (computeSummary s)"
  by (simp add: computeSummary_def Let_def)

lemma sum_list_nonneg_entries:
  "list_all (\<lambda>(i, amount). 0 \<le> amount) ds \<Longrightarrow> 0 \<le> sum_list (map snd ds :: real list)"
  by (induction ds) auto

lemma totalDeductions_nonneg_if:
  assumes "0 \<le> parseAmount (epfAmount s)" and "0 \<le> parseAmount (socsoAmount s)"
    and "list_all (\<lambda>(i, amount). 0 \<le> amount) (deductions s)"
  shows "0 \<le> totalDeductions (computeSummary s)"
  using assms(1,2) sum_list_nonneg_entries [OF assms(3)]
  by (simp add: computeSummary_def calculateSocso_def Let_def foldl_plus_sum_list)

text \<open>
  C6. The summary is claimed never to return a negative taxable income, tax payable or
  total of deductions. The first two are floored at 0 (\<open>computeSummary_nonneg\<close>), and the
  total is not negative when no stored deduction is (\<open>totalDeductions_nonneg_if\<close>); but
  the deduction handler stores a negative amount as typed, and then the total is negative:
  \<open>-20000\<close> typed into the personal relief field of the initial state gives a total of
  \<open>-20000\<close>.
\<close>

theorem negative_totalDeductions:
  "deductions (handleDeductionChange ''personal'' ''-20000'' initialState)
     = [(''personal'', - 20000)]
   \<and> totalDeductions (computeSummary
        (handleDeductionChange ''personal'' ''-20000'' initialState)) = - 20000
   \<and> totalDeductions (computeSummary
        (handleDeductionChange ''personal'' ''-20000'' initialState)) < 0"
proof -
  have f: "find (\<lambda>d. deduction_id d = ''personal'') availableDeductions
      = Some (mkDeduction ''personal'' ''Individual and Dependent Relatives'' 9000 (Some 9000))"
    by (simp add: availableDeductions_def mkDeduction_def)
  have p: "parseAmount ''-20000'' = - 20000" by (simp add: parse_defs)
  have st: "handleDeductionChange ''personal'' ''-20000'' initialState
      = \<lparr>annualIncome = [], epfAmount = [], socsoAmount = [],
         deductions = [(''personal'', - 20000)],
         rebates = [(''individual'', 0), (''spouse'', 0), (''zakat'', 0)]\<rparr>"
    by (simp add: handleDeductionChange_def f p mkDeduction_def initialState_def
        defaultDeductions_eq)
  have td: "totalDeductions (computeSummary
        (handleDeductionChange ''personal'' ''-20000'' initialState)) = - 20000"
    unfolding st by (simp add: computeSummary_def calculateSocso_def Let_def parseAmount_empty)
  show ?thesis unfolding td by (simp add: st)
qed

end
